theory Spec2Isabelle
  imports Main "HOL-Library.Sublist"
begin

section \<open>Python values\<close>

text \<open>
  A Python \<open>str\<close> is a sequence of Unicode code points, so it is modelled as a list of
  naturals. \<open>ascii\<close> turns an Isabelle string literal into such a list; the non-ASCII
  characters of the source's literals are written as their code points.
\<close>

type_synonym pystr = "nat list"

definition ascii :: "string \<Rightarrow> pystr" where
  "ascii s = map of_char s"

text \<open>
  The values that \<open>request.get_json\<close> can produce, and that an attribute of the upstream
  response can hold. A float is \<open>PyFloat m e\<close>, standing for \<open>m * 2 ^ e\<close>; only its
  being zero or not is ever looked at. A dict is an association list read with
  \<open>map_of\<close>.
\<close>

datatype pyval =
    PyNone
  | PyBool bool
  | PyInt int
  | PyFloat int int
  | PyStr pystr
  | PyList "pyval list"
  | PyDict "(pystr \<times> pyval) list"

text \<open>
  The exceptions of the program: \<open>AttributeError\<close> (a method called on a value whose type
  lacks it), \<open>RuntimeError\<close> (raised at startup), \<open>UnicodeEncodeError\<close> (raised when a
  response is encoded) and any other subclass of \<open>Exception\<close>, each with the text that
  \<open>str(e)\<close> gives.
\<close>

datatype exn =
    AttributeError pystr
  | RuntimeError pystr
  | UnicodeEncodeError pystr
  | OtherException pystr

fun exn_str :: "exn \<Rightarrow> pystr" where
  "exn_str (AttributeError m) = m"
| "exn_str (RuntimeError m) = m"
| "exn_str (UnicodeEncodeError m) = m"
| "exn_str (OtherException m) = m"

fun truthy :: "pyval \<Rightarrow> bool" where
  "truthy PyNone = False"
| "truthy (PyBool b) = b"
| "truthy (PyInt n) = (n \<noteq> 0)"
| "truthy (PyFloat m e) = (m \<noteq> 0)"
| "truthy (PyStr s) = (s \<noteq> [])"
| "truthy (PyList xs) = (xs \<noteq> [])"
| "truthy (PyDict kvs) = (kvs \<noteq> [])"

text \<open>Python's \<open>x or y\<close>: \<open>x\<close> when it is truthy, \<open>y\<close> otherwise.\<close>

definition py_or :: "pyval \<Rightarrow> pyval \<Rightarrow> pyval" where
  "py_or x y = (if truthy x then x else y)"

fun type_name :: "pyval \<Rightarrow> pystr" where
  "type_name PyNone = ascii ''NoneType''"
| "type_name (PyBool b) = ascii ''bool''"
| "type_name (PyInt n) = ascii ''int''"
| "type_name (PyFloat m e) = ascii ''float''"
| "type_name (PyStr s) = ascii ''str''"
| "type_name (PyList xs) = ascii ''list''"
| "type_name (PyDict kvs) = ascii ''dict''"

definition no_attribute :: "pyval \<Rightarrow> pystr \<Rightarrow> exn" where
  "no_attribute v attr =
     AttributeError (ascii [CHR 0x27] @ type_name v @ ascii [CHR 0x27]
                     @ ascii '' object has no attribute ''
                     @ ascii [CHR 0x27] @ attr @ ascii [CHR 0x27])"

text \<open>\<open>v.get(k, d)\<close>: only a dict has the method.\<close>

fun dict_get :: "pyval \<Rightarrow> pystr \<Rightarrow> pyval \<Rightarrow> exn + pyval" where
  "dict_get (PyDict kvs) k d = Inr (case map_of kvs k of None \<Rightarrow> d | Some v \<Rightarrow> v)"
| "dict_get v k d = Inl (no_attribute v (ascii ''get''))"

text \<open>
  The characters that \<open>str.strip()\<close> removes: those for which \<open>str.isspace\<close> holds
  (general category Zs, or bidirectional class WS, B or S).
\<close>

definition is_space :: "nat \<Rightarrow> bool" where
  "is_space c \<longleftrightarrow>
     (0x09 \<le> c \<and> c \<le> 0x0D) \<or> (0x1C \<le> c \<and> c \<le> 0x20) \<or> c = 0x85 \<or> c = 0xA0 \<or>
     c = 0x1680 \<or> (0x2000 \<le> c \<and> c \<le> 0x200A) \<or> c = 0x2028 \<or> c = 0x2029 \<or>
     c = 0x202F \<or> c = 0x205F \<or> c = 0x3000"

definition lstrip :: "pystr \<Rightarrow> pystr" where
  "lstrip s = dropWhile is_space s"

definition rstrip :: "pystr \<Rightarrow> pystr" where
  "rstrip s = rev (dropWhile is_space (rev s))"

definition strip :: "pystr \<Rightarrow> pystr" where
  "strip s = rstrip (lstrip s)"

text \<open>\<open>v.strip()\<close>: only a str has the method.\<close>

fun str_strip :: "pyval \<Rightarrow> exn + pystr" where
  "str_strip (PyStr s) = Inr (strip s)"
| "str_strip v = Inl (no_attribute v (ascii ''strip''))"

text \<open>Decimal rendering of the loop counter in an f-string.\<close>

fun str_of_nat :: "nat \<Rightarrow> pystr" where
  "str_of_nat n = (if n < 10 then [48 + n] else str_of_nat (n div 10) @ [48 + n mod 10])"

declare str_of_nat.simps [simp del]

text \<open>
  \<open>f"{v}"\<close>: a str is inserted as it is. What \<open>str()\<close> gives for a value of another type
  belongs to the Python runtime and is the parameter \<open>to_str\<close>.
\<close>

fun py_format :: "(pyval \<Rightarrow> pystr) \<Rightarrow> pyval \<Rightarrow> pystr" where
  "py_format to_str (PyStr s) = s"
| "py_format to_str v = to_str v"

text \<open>\<open>sep.join(xs)\<close>.\<close>

fun str_join :: "pystr \<Rightarrow> pystr list \<Rightarrow> pystr" where
  "str_join sep [] = []"
| "str_join sep [x] = x"
| "str_join sep (x # y # xs) = x @ sep @ str_join sep (y # xs)"

section \<open>Startup: the API key\<close>

text \<open>
  \<open>load_dotenv(find_dotenv(), override=True)\<close> writes the variables of the nearest
  \<open>.env\<close> file over the process environment; the file's variables are the map \<open>dotenv\<close>
  (empty when there is no file).
\<close>

type_synonym environ = "pystr \<rightharpoonup> pystr"

definition load_dotenv :: "environ \<Rightarrow> environ \<Rightarrow> environ" where
  "load_dotenv dotenv env = env ++ dotenv"

record config =
  api_key :: pystr
  model_name :: pystr
  max_output_tokens :: nat

definition MODEL_NAME :: pystr where
  "MODEL_NAME = ascii ''gemini-2.0-flash''"

definition missing_key_message :: pystr where
  "missing_key_message =
     ascii ''Defina GEMINI_API_KEY nas vari'' @ [0xE1]
     @ ascii ''veis de ambiente (.env local ou Vercel Settings).''"

text \<open>
  The module's top level up to the construction of the model: \<open>os.getenv\<close> gives \<open>None\<close>
  for an unset variable, and \<open>not API_KEY\<close> holds for \<open>None\<close> and for the empty string.
\<close>

definition startup :: "environ \<Rightarrow> environ \<Rightarrow> exn + config" where
  "startup dotenv env =
     (case load_dotenv dotenv env (ascii ''GEMINI_API_KEY'') of
        None \<Rightarrow> Inl (RuntimeError missing_key_message)
      | Some k \<Rightarrow>
          if k = [] then Inl (RuntimeError missing_key_message)
          else Inr \<lparr>api_key = k, model_name = MODEL_NAME, max_output_tokens = 800\<rparr>)"

section \<open>The upstream model\<close>

text \<open>
  \<open>model.generate_content(prompt)\<close> raises, or returns an object. Reading the object's
  \<open>text\<close> finds no such attribute, raises (it is a property), or gives a value.
  The upstream model is the parameter \<open>gen\<close> of everything below.
\<close>

datatype text_attr = NoTextAttr | TextRaises exn | TextIs pyval

type_synonym upstream = "pystr \<Rightarrow> exn + text_attr"

text \<open>\<open>getattr(resp, "text", "")\<close>: the default replaces an \<open>AttributeError\<close> only.\<close>

fun getattr_text :: "text_attr \<Rightarrow> exn + pyval" where
  "getattr_text NoTextAttr = Inr (PyStr [])"
| "getattr_text (TextRaises (AttributeError m)) = Inr (PyStr [])"
| "getattr_text (TextRaises e) = Inl e"
| "getattr_text (TextIs v) = Inr v"

section \<open>Helpers\<close>

text \<open>
  A helper returns its result (or the exception it raised) together with the prompts it
  sent upstream, in order.
\<close>

definition answer_prompt :: "pystr \<Rightarrow> pystr" where
  "answer_prompt question =
     ascii ''Responda no contexto acima **em Markdown**. ''
     @ (ascii ''Use t'' @ [0xED]
        @ ascii ''tulos curtos (##), listas quando fizer sentido e blocos de c'' @ [0xF3]
        @ ascii ''digo com a linguagem quando houver trechos de c'' @ [0xF3]
        @ ascii ''digo. '')
     @ ([0x0A] @ ascii ''Pergunta do usu'' @ [0xE1] @ ascii ''rio: '' @ question)"

definition answer_fallback :: pystr where
  "answer_fallback = ascii ''N'' @ [0xE3] @ ascii ''o consegui gerar resposta.''"

text \<open>The last two lines shared by both helpers: \<open>(getattr(resp, "text", "") or "").strip()\<close>,
  then \<open>result or fallback\<close>.\<close>

definition response_text :: "pystr \<Rightarrow> text_attr \<Rightarrow> exn + pystr" where
  "response_text fallback resp =
     (case getattr_text resp of
        Inl e \<Rightarrow> Inl e
      | Inr t \<Rightarrow>
          (case str_strip (py_or t (PyStr [])) of
             Inl e \<Rightarrow> Inl e
           | Inr s \<Rightarrow> Inr (if s \<noteq> [] then s else fallback)))"

definition generate_markdown_answer :: "upstream \<Rightarrow> pystr \<Rightarrow> (exn + pystr) \<times> pystr list" where
  "generate_markdown_answer gen question =
     (let prompt = answer_prompt question in
      case gen prompt of
        Inl e \<Rightarrow> (Inl e, [prompt])
      | Inr resp \<Rightarrow> (response_text answer_fallback resp, [prompt]))"

definition summary_header :: "pystr list" where
  "summary_header =
     [ ascii ''Resuma de forma objetiva as intera'' @ [0xE7] @ [0xF5] @ ascii ''es abaixo.'',
       [0x2022] @ ascii '' Traga AT'' @ [0xC9] @ ascii '' 8 t'' @ [0xF3] @ ascii ''picos (bullets).'',
       [0x2022] @ ascii '' Termine com 'Pr'' @ [0xF3] @ ascii ''ximas a'' @ [0xE7] @ [0xF5]
         @ ascii ''es:' e 3 itens.'',
       [],
       ascii ''Conte'' @ [0xFA] @ ascii ''do para resumir:'' ]"

definition pergunta_line :: "nat \<Rightarrow> pystr \<Rightarrow> pystr" where
  "pergunta_line i q = ascii ''- Pergunta '' @ str_of_nat i @ ascii '': '' @ q"

definition resposta_line :: "nat \<Rightarrow> pystr \<Rightarrow> pystr" where
  "resposta_line i a = ascii ''- Resposta '' @ str_of_nat i @ ascii '': '' @ a"

text \<open>
  The \<open>for i, item in enumerate(qa, start=1)\<close> loop: \<open>i\<close> is the counter, \<open>linhas\<close> the list
  built so far. \<open>(item or {}).get(...)\<close> raises for a truthy item that is not a dict.
\<close>

fun summary_lines :: "(pyval \<Rightarrow> pystr) \<Rightarrow> nat \<Rightarrow> pystr list \<Rightarrow> pyval list \<Rightarrow> exn + pystr list" where
  "summary_lines to_str i linhas [] = Inr linhas"
| "summary_lines to_str i linhas (item # rest) =
     (case dict_get (py_or item (PyDict [])) (ascii ''q'') (PyStr []) of
        Inl e \<Rightarrow> Inl e
      | Inr q \<Rightarrow>
          (case dict_get (py_or item (PyDict [])) (ascii ''a'') (PyStr []) of
             Inl e \<Rightarrow> Inl e
           | Inr a \<Rightarrow>
               summary_lines to_str (i + 1)
                 (linhas @ [pergunta_line i (py_format to_str q),
                            resposta_line i (py_format to_str a)])
                 rest))"

definition summary_fallback :: pystr where
  "summary_fallback =
     ascii ''N'' @ [0xE3] @ ascii ''o foi poss'' @ [0xED] @ ascii ''vel gerar o resumo.''"

definition summarize_markdown ::
  "upstream \<Rightarrow> (pyval \<Rightarrow> pystr) \<Rightarrow> pyval list \<Rightarrow> (exn + pystr) \<times> pystr list" where
  "summarize_markdown gen to_str qa =
     (case summary_lines to_str 1 summary_header qa of
        Inl e \<Rightarrow> (Inl e, [])
      | Inr linhas \<Rightarrow>
          (let prompt = str_join [0x0A] linhas in
           case gen prompt of
             Inl e \<Rightarrow> (Inl e, [prompt])
           | Inr resp \<Rightarrow> (response_text summary_fallback resp, [prompt])))"

section \<open>Routes\<close>

text \<open>
  The body of a request as \<open>request.get_json(silent=True)\<close> sees it: with \<open>silent=True\<close>
  a request without a JSON body and a body that does not parse both give \<open>None\<close>.
\<close>

datatype body = Absent | Malformed | Json pyval

fun get_json_silent :: "body \<Rightarrow> pyval" where
  "get_json_silent Absent = PyNone"
| "get_json_silent Malformed = PyNone"
| "get_json_silent (Json v) = v"

text \<open>
  A str can be encoded as UTF-8 unless it holds a surrogate code point; a payload can be
  encoded when every str in it, keys included, can.
\<close>

definition is_surrogate :: "nat \<Rightarrow> bool" where
  "is_surrogate c \<longleftrightarrow> 0xD800 \<le> c \<and> c \<le> 0xDFFF"

definition encodable :: "pystr \<Rightarrow> bool" where
  "encodable s \<longleftrightarrow> \<not> list_ex is_surrogate s"

primrec encodable_val :: "pyval \<Rightarrow> bool" where
  "encodable_val PyNone = True"
| "encodable_val (PyBool b) = True"
| "encodable_val (PyInt n) = True"
| "encodable_val (PyFloat m e) = True"
| "encodable_val (PyStr s) = encodable s"
| "encodable_val (PyList xs) = list_all id (map encodable_val xs)"
| "encodable_val (PyDict kvs) =
     list_all (\<lambda>(k, ok). encodable k \<and> ok) (map (map_prod id encodable_val) kvs)"

text \<open>
  \<open>jsonify(payload), status\<close>; the status is 200 when none is given. The module sets
  \<open>app.json.ensure_ascii = False\<close>, so the payload's text is written as it is and the
  response body is then encoded as UTF-8: a payload that cannot be encoded makes
  \<open>jsonify\<close> raise \<open>UnicodeEncodeError\<close>. The text of that error names a position in the
  serialised payload, which depends on the layout the JSON provider chose; it is the
  parameter \<open>enc\<close>.
\<close>

datatype response = Response (status: nat) (payload: pyval)

definition jsonify :: "(pyval \<Rightarrow> pystr) \<Rightarrow> pyval \<Rightarrow> nat \<Rightarrow> exn + response" where
  "jsonify enc obj st =
     (if encodable_val obj then Inr (Response st obj)
      else Inl (UnicodeEncodeError (enc obj)))"

text \<open>\<open>try: body except Exception as e: handler\<close>.\<close>

definition try_except :: "exn + 'a \<Rightarrow> (exn \<Rightarrow> exn + 'a) \<Rightarrow> exn + 'a" where
  "try_except body handler = (case body of Inr r \<Rightarrow> Inr r | Inl e \<Rightarrow> handler e)"

definition error_payload :: "pystr \<Rightarrow> pyval" where
  "error_payload msg = PyDict [(ascii ''error'', PyStr msg)]"

definition health :: "(pyval \<Rightarrow> pystr) \<Rightarrow> exn + response" where
  "health enc = jsonify enc (PyDict [(ascii ''ok'', PyBool True)]) 200"

definition question_required :: pystr where
  "question_required =
     ascii ''Campo 'question' '' @ [0xE9] @ ascii '' obrigat'' @ [0xF3] @ ascii ''rio''"

text \<open>
  A route returns the response, or the exception that left the function uncaught, and
  the prompts sent upstream while it ran.
\<close>

definition ask ::
  "upstream \<Rightarrow> (pyval \<Rightarrow> pystr) \<Rightarrow> body \<Rightarrow> (exn + response) \<times> pystr list" where
  "ask gen enc b =
     (let data = py_or (get_json_silent b) (PyDict []) in
      case dict_get data (ascii ''question'') PyNone of
        Inl e \<Rightarrow> (Inl e, [])
      | Inr v \<Rightarrow>
          (case str_strip (py_or v (PyStr [])) of
             Inl e \<Rightarrow> (Inl e, [])
           | Inr question \<Rightarrow>
               if question = [] then
                 (jsonify enc (error_payload question_required) 400, [])
               else
                 (let (result, calls) = generate_markdown_answer gen question in
                  (try_except
                     (case result of
                        Inl e \<Rightarrow> Inl e
                      | Inr answer \<Rightarrow>
                          jsonify enc (PyDict [(ascii ''answer'', PyStr answer)]) 200)
                     (\<lambda>e. jsonify enc
                            (error_payload (ascii ''Erro ao gerar resposta: '' @ exn_str e)) 500),
                   calls))))"

definition qa_must_be_list :: pystr where
  "qa_must_be_list = ascii ''Campo 'qa' deve ser uma lista''"

fun is_list :: "pyval \<Rightarrow> bool" where
  "is_list (PyList xs) = True"
| "is_list v = False"

fun list_items :: "pyval \<Rightarrow> pyval list" where
  "list_items (PyList xs) = xs"
| "list_items v = []"

definition summarize ::
  "upstream \<Rightarrow> (pyval \<Rightarrow> pystr) \<Rightarrow> (pyval \<Rightarrow> pystr) \<Rightarrow> body
     \<Rightarrow> (exn + response) \<times> pystr list" where
  "summarize gen to_str enc b =
     (let data = py_or (get_json_silent b) (PyDict []) in
      case dict_get data (ascii ''qa'') PyNone of
        Inl e \<Rightarrow> (Inl e, [])
      | Inr qa \<Rightarrow>
          if \<not> truthy qa \<or> \<not> is_list qa then
            (jsonify enc (error_payload qa_must_be_list) 400, [])
          else
            (let (result, calls) = summarize_markdown gen to_str (list_items qa) in
             (try_except
                (case result of
                   Inl e \<Rightarrow> Inl e
                 | Inr summary \<Rightarrow>
                     jsonify enc (PyDict [(ascii ''summary'', PyStr summary)]) 200)
                (\<lambda>e. jsonify enc
                       (error_payload (ascii ''Erro ao gerar resumo: '' @ exn_str e)) 500),
              calls)))"

section \<open>The process\<close>

datatype request = GetHealth | PostAsk body | PostSummarize body

fun dispatch ::
  "upstream \<Rightarrow> (pyval \<Rightarrow> pystr) \<Rightarrow> (pyval \<Rightarrow> pystr) \<Rightarrow> request
     \<Rightarrow> (exn + response) \<times> pystr list" where
  "dispatch gen to_str enc GetHealth = (health enc, [])"
| "dispatch gen to_str enc (PostAsk b) = ask gen enc b"
| "dispatch gen to_str enc (PostSummarize b) = summarize gen to_str enc b"

text \<open>
  The routes are registered by the module's top level after the key check, so a process
  whose startup raises handles no request at all.
\<close>

definition process ::
  "environ \<Rightarrow> environ \<Rightarrow> upstream \<Rightarrow> (pyval \<Rightarrow> pystr) \<Rightarrow> (pyval \<Rightarrow> pystr) \<Rightarrow> request list
     \<Rightarrow> exn + ((exn + response) \<times> pystr list) list" where
  "process dotenv env gen to_str enc reqs =
     (case startup dotenv env of
        Inl e \<Rightarrow> Inl e
      | Inr cfg \<Rightarrow> Inr (map (dispatch gen to_str enc) reqs))"

section \<open>Sample inputs\<close>

text \<open>
  Upstream models, stand-ins for the runtime's \<open>str()\<close> and for the codec's error text, and
  an environment, for the closed instances below: a model that answers, one that answers
  with blanks only, one that raises, and one that raises an exception whose text is a lone
  surrogate. \<open>qa_item\<close> is the object \<open>{"q": q, "a": a}\<close> that the frontend sends.
\<close>

definition fixed_model :: upstream where
  "fixed_model p = Inr (TextIs (PyStr (ascii ''## ok'')))"

definition blank_model :: upstream where
  "blank_model p = Inr (TextIs (PyStr (ascii ''  '')))"

definition failing_model :: upstream where
  "failing_model p = Inl (OtherException (ascii ''quota exceeded''))"


definition sample_to_str :: "pyval \<Rightarrow> pystr" where
  "sample_to_str v = ascii ''<value>''"

definition sample_enc :: "pyval \<Rightarrow> pystr" where
  "sample_enc v = ascii ''surrogates not allowed''"

definition qa_item :: "pystr \<times> pystr \<Rightarrow> pyval" where
  "qa_item p = PyDict [(ascii ''q'', PyStr (fst p)), (ascii ''a'', PyStr (snd p))]"

definition sample_environ :: environ where
  "sample_environ = [ascii ''GEMINI_API_KEY'' \<mapsto> ascii ''k123'']"

section \<open>Reading a prompt\<close>

text \<open>
  The lines of a string, as \<open>s.split("\n")\<close> gives them. The program never splits a
  prompt; this is how the properties below count the lines of the prompt it built.
\<close>

fun split_lines :: "pystr \<Rightarrow> pystr list" where
  "split_lines [] = [[]]"
| "split_lines (c # cs) =
     (if c = 0x0A then [] # split_lines cs
      else (case split_lines cs of [] \<Rightarrow> [[c]] | l # ls \<Rightarrow> (c # l) # ls))"

section \<open>Trimming\<close>

lemma strip_Nil [simp]: "strip [] = []"
  by (simp add: strip_def lstrip_def rstrip_def)

lemma lstrip_fixed: "s \<noteq> [] \<Longrightarrow> \<not> is_space (hd s) \<Longrightarrow> lstrip s = s"
  by (cases s) (simp_all add: lstrip_def)

lemma rstrip_fixed: "s \<noteq> [] \<Longrightarrow> \<not> is_space (last s) \<Longrightarrow> rstrip s = s"
  by (cases s rule: rev_cases) (simp_all add: rstrip_def)

lemma lstrip_hd: "lstrip s \<noteq> [] \<Longrightarrow> \<not> is_space (hd (lstrip s))"
  unfolding lstrip_def by (metis hd_dropWhile)

lemma rstrip_last: "rstrip s \<noteq> [] \<Longrightarrow> \<not> is_space (last (rstrip s))"
  unfolding rstrip_def by (metis hd_dropWhile last_rev rev_is_Nil_conv)

lemma rstrip_prefix: "prefix (rstrip s) s"
proof -
  have "suffix (dropWhile is_space (rev s)) (rev s)"
    by (rule suffix_dropWhile)
  then show ?thesis
    unfolding rstrip_def by (metis rev_rev_ident suffix_to_prefix)
qed

lemma rstrip_hd: "rstrip s \<noteq> [] \<Longrightarrow> hd (rstrip s) = hd s"
proof -
  assume ne: "rstrip s \<noteq> []"
  obtain zs where "s = rstrip s @ zs"
    using rstrip_prefix [of s] by (auto simp: prefix_def)
  then have "hd s = hd (rstrip s @ zs)" by simp
  also have "\<dots> = hd (rstrip s)" using ne by simp
  finally show ?thesis by simp
qed

text \<open>A non-empty trimmed string starts and ends with a character that is not a space.\<close>

lemma strip_ends:
  assumes "strip s \<noteq> []"
  shows "\<not> is_space (hd (strip s))" and "\<not> is_space (last (strip s))"
proof -
  from assms have ne: "lstrip s \<noteq> []"
    unfolding strip_def rstrip_def by auto
  have "hd (strip s) = hd (lstrip s)"
    using assms unfolding strip_def by (rule rstrip_hd)
  with lstrip_hd [OF ne] show "\<not> is_space (hd (strip s))" by simp
  show "\<not> is_space (last (strip s))"
    using assms unfolding strip_def by (rule rstrip_last)
qed

lemma strip_idem: "strip (strip s) = strip s"
proof (cases "strip s = []")
  case True
  then show ?thesis by simp
next
  case False
  note e = strip_ends [OF False]
  have "lstrip (strip s) = strip s" using False e(1) by (rule lstrip_fixed)
  moreover have "rstrip (strip s) = strip s" using False e(2) by (rule rstrip_fixed)
  ultimately show ?thesis by (simp add: strip_def [of "strip s"])
qed

lemma strip_not_blank: "strip s \<noteq> [] \<Longrightarrow> \<exists>c\<in>set (strip s). \<not> is_space c"
  using strip_ends(1) [of s] by (metis hd_in_set)

lemma strip_Nil_iff: "strip s = [] \<longleftrightarrow> (\<forall>c\<in>set s. is_space c)"
proof
  assume "strip s = []"
  then have "\<forall>c\<in>set (lstrip s). is_space c"
    by (simp add: strip_def rstrip_def)
  then have "lstrip s = []"
    using lstrip_hd [of s] by (metis hd_in_set)
  then show "\<forall>c\<in>set s. is_space c"
    by (simp add: lstrip_def)
next
  assume "\<forall>c\<in>set s. is_space c"
  then have "lstrip s = []"
    by (simp add: lstrip_def)
  then show "strip s = []"
    by (simp add: strip_def rstrip_def)
qed

section \<open>Encoding a response\<close>

lemma encodable_append [simp]: "encodable (s @ t) \<longleftrightarrow> encodable s \<and> encodable t"
  by (simp add: encodable_def)

lemma encodable_Nil [simp]: "encodable []"
  by (simp add: encodable_def)

text \<open>The fixed texts of the responses hold no surrogate.\<close>

lemma encodable_question_required: "encodable question_required"
  by (simp add: question_required_def encodable_def is_surrogate_def ascii_def)

lemma encodable_qa_must_be_list: "encodable qa_must_be_list"
  by (simp add: qa_must_be_list_def encodable_def is_surrogate_def ascii_def)

lemma encodable_keys:
  "encodable (ascii ''error'')" "encodable (ascii ''answer'')"
  "encodable (ascii ''summary'')" "encodable (ascii ''ok'')"
  by (simp_all add: encodable_def is_surrogate_def ascii_def)


lemma jsonify_error:
  "encodable msg \<Longrightarrow> jsonify enc (error_payload msg) st = Inr (Response st (error_payload msg))"
  by (simp add: jsonify_def error_payload_def encodable_keys)


lemma jsonify_status: "jsonify enc obj st = Inr r \<Longrightarrow> r = Response st obj"
  by (auto simp: jsonify_def split: if_splits)

section \<open>The routes, case by case\<close>

lemma py_or_dict [simp]: "py_or (PyDict kvs) (PyDict []) = PyDict kvs"
  by (simp add: py_or_def)

lemma py_or_None_str [simp]: "py_or PyNone (PyStr []) = PyStr []"
  by (simp add: py_or_def)

lemma py_or_str [simp]: "py_or (PyStr s) (PyStr []) = PyStr s"
  by (simp add: py_or_def)

text \<open>What \<open>ask\<close> does once the body is an object: the outcomes of its checks.\<close>

lemma ask_no_question:
  "map_of kvs (ascii ''question'') = None \<Longrightarrow>
   ask gen enc (Json (PyDict kvs)) =
     (Inr (Response 400 (error_payload question_required)), [])"
  by (simp add: ask_def jsonify_error encodable_question_required)

lemma ask_blank_question:
  "map_of kvs (ascii ''question'') = Some (PyStr s) \<Longrightarrow> strip s = [] \<Longrightarrow>
   ask gen enc (Json (PyDict kvs)) =
     (Inr (Response 400 (error_payload question_required)), [])"
  by (simp add: ask_def jsonify_error encodable_question_required)

lemma ask_valid_question:
  "map_of kvs (ascii ''question'') = Some (PyStr q) \<Longrightarrow> strip q \<noteq> [] \<Longrightarrow>
   ask gen enc (Json (PyDict kvs)) =
     (let (result, calls) = generate_markdown_answer gen (strip q) in
      (try_except
         (case result of
            Inl e \<Rightarrow> Inl e
          | Inr answer \<Rightarrow> jsonify enc (PyDict [(ascii ''answer'', PyStr answer)]) 200)
         (\<lambda>e. jsonify enc (error_payload (ascii ''Erro ao gerar resposta: '' @ exn_str e)) 500),
       calls))"
  by (simp add: ask_def)

text \<open>The same for \<open>summarize\<close>.\<close>

lemma summarize_no_qa:
  "map_of kvs (ascii ''qa'') = None \<Longrightarrow>
   summarize gen to_str enc (Json (PyDict kvs)) =
     (Inr (Response 400 (error_payload qa_must_be_list)), [])"
  by (simp add: summarize_def jsonify_error encodable_qa_must_be_list)

lemma summarize_not_list:
  "map_of kvs (ascii ''qa'') = Some v \<Longrightarrow> \<not> is_list v \<Longrightarrow>
   summarize gen to_str enc (Json (PyDict kvs)) =
     (Inr (Response 400 (error_payload qa_must_be_list)), [])"
  by (simp add: summarize_def jsonify_error encodable_qa_must_be_list)

lemma summarize_empty_list:
  "map_of kvs (ascii ''qa'') = Some (PyList []) \<Longrightarrow>
   summarize gen to_str enc (Json (PyDict kvs)) =
     (Inr (Response 400 (error_payload qa_must_be_list)), [])"
  by (simp add: summarize_def jsonify_error encodable_qa_must_be_list)

lemma summarize_valid_qa:
  "map_of kvs (ascii ''qa'') = Some (PyList items) \<Longrightarrow> items \<noteq> [] \<Longrightarrow>
   summarize gen to_str enc (Json (PyDict kvs)) =
     (let (result, calls) = summarize_markdown gen to_str items in
      (try_except
         (case result of
            Inl e \<Rightarrow> Inl e
          | Inr summary \<Rightarrow> jsonify enc (PyDict [(ascii ''summary'', PyStr summary)]) 200)
         (\<lambda>e. jsonify enc (error_payload (ascii ''Erro ao gerar resumo: '' @ exn_str e)) 500),
       calls))"
  by (simp add: summarize_def)

section \<open>The summary prompt\<close>

lemma ascii_a_neq_q: "ascii ''a'' \<noteq> ascii ''q''"
  by (simp add: ascii_def)

text \<open>The loop over well-formed items, in closed form.\<close>

lemma summary_lines_qa_items:
  "summary_lines to_str i linhas (map qa_item pairs) =
     Inr (linhas @ concat (map (\<lambda>(k, q, a). [pergunta_line k q, resposta_line k a])
                            (enumerate i pairs)))"
proof (induction pairs arbitrary: i linhas)
  case Nil
  show ?case by simp
next
  case (Cons p pairs)
  have q: "dict_get (py_or (qa_item p) (PyDict [])) (ascii ''q'') (PyStr []) = Inr (PyStr (fst p))"
    by (simp add: qa_item_def py_or_def)
  have a: "dict_get (py_or (qa_item p) (PyDict [])) (ascii ''a'') (PyStr []) = Inr (PyStr (snd p))"
    by (simp add: qa_item_def py_or_def ascii_a_neq_q)
  show ?case
    by (simp add: q a Cons.IH split_beta)
qed

text \<open>Joining with a separator puts the separator before every line but the first.\<close>

lemma str_join_Cons: "str_join sep (x # xs) = x @ concat (map (\<lambda>y. sep @ y) xs)"
  by (induction xs arbitrary: x) auto

lemma str_join_append:
  "xs \<noteq> [] \<Longrightarrow> str_join sep (xs @ ys) = str_join sep xs @ concat (map (\<lambda>y. sep @ y) ys)"
  by (cases xs) (simp_all add: str_join_Cons)

lemma concat_sep_pairs:
  "concat (map (\<lambda>y. sep @ y) (concat (map (\<lambda>(k, q, a). [f k q, g k a]) es))) =
   concat (map (\<lambda>(k, q, a). sep @ f k q @ sep @ g k a) es)"
  by (induction es) (auto simp: split_beta)

lemma header_text:
  "str_join [0x0A] summary_header =
     ascii ''Resuma de forma objetiva as intera'' @ [0xE7, 0xF5] @ ascii ''es abaixo.'' @ [0x0A]
     @ [0x2022] @ ascii '' Traga AT'' @ [0xC9] @ ascii '' 8 t'' @ [0xF3]
     @ ascii ''picos (bullets).'' @ [0x0A]
     @ [0x2022] @ ascii '' Termine com 'Pr'' @ [0xF3] @ ascii ''ximas a'' @ [0xE7, 0xF5]
     @ ascii ''es:' e 3 itens.'' @ [0x0A]
     @ [0x0A]
     @ ascii ''Conte'' @ [0xFA] @ ascii ''do para resumir:''"
  by (simp add: summary_header_def)

lemma header_lines:
  "summary_header =
     [ascii ''Resuma de forma objetiva as intera'' @ [0xE7, 0xF5] @ ascii ''es abaixo.'',
      [0x2022] @ ascii '' Traga AT'' @ [0xC9] @ ascii '' 8 t'' @ [0xF3]
        @ ascii ''picos (bullets).'',
      [0x2022] @ ascii '' Termine com 'Pr'' @ [0xF3] @ ascii ''ximas a'' @ [0xE7, 0xF5]
        @ ascii ''es:' e 3 itens.'',
      [],
      ascii ''Conte'' @ [0xFA] @ ascii ''do para resumir:'']"
  by (simp add: summary_header_def)

lemma header_no_newline: "\<forall>l\<in>set summary_header. 0x0A \<notin> set l"
  by (simp add: summary_header_def ascii_def)

text \<open>The counter is rendered with decimal digits.\<close>

lemma str_of_nat_digits: "c \<in> set (str_of_nat n) \<Longrightarrow> 48 \<le> c \<and> c \<le> 57"
proof (induction n arbitrary: c rule: str_of_nat.induct)
  case (1 n)
  show ?case
  proof (cases "n < 10")
    case True
    with "1.prems" show ?thesis by (simp add: str_of_nat.simps [of n])
  next
    case False
    with "1.prems" have "c \<in> set (str_of_nat (n div 10)) \<or> c = 48 + n mod 10"
      by (auto simp: str_of_nat.simps [of n])
    then show ?thesis
    proof
      assume "c \<in> set (str_of_nat (n div 10))"
      with False "1.IH" show ?thesis by simp
    next
      assume "c = 48 + n mod 10"
      moreover have "n mod 10 < 10" by simp
      ultimately show ?thesis by linarith
    qed
  qed
qed

lemma str_of_nat_no_newline: "0x0A \<notin> set (str_of_nat n)"
  using str_of_nat_digits [of "0x0A" n] by auto

lemma item_lines_no_newline:
  "0x0A \<notin> set q \<Longrightarrow> 0x0A \<notin> set (pergunta_line i q)"
  "0x0A \<notin> set a \<Longrightarrow> 0x0A \<notin> set (resposta_line i a)"
  by (simp_all add: pergunta_line_def resposta_line_def str_of_nat_no_newline ascii_def)

text \<open>Splitting at newlines undoes the join when no line holds a newline.\<close>

lemma split_lines_not_Nil: "split_lines s \<noteq> []"
  by (induction s) (auto split: list.splits)

lemma split_lines_line: "0x0A \<notin> set x \<Longrightarrow> split_lines (x @ 0x0A # rest) = x # split_lines rest"
  by (induction x) auto

lemma split_lines_last: "0x0A \<notin> set x \<Longrightarrow> split_lines x = [x]"
  by (induction x) auto

lemma split_lines_join:
  "ls \<noteq> [] \<Longrightarrow> \<forall>l\<in>set ls. 0x0A \<notin> set l \<Longrightarrow> split_lines (str_join [0x0A] ls) = ls"
proof (induction "[0x0A::nat]" ls rule: str_join.induct)
  case 1
  then show ?case by simp
next
  case (2 x)
  then show ?case by (simp add: split_lines_last)
next
  case (3 x y xs)
  then show ?case by (simp add: split_lines_line)
qed

lemma summarize_markdown_calls_pairs:
  "snd (summarize_markdown gen to_str (map qa_item pairs)) =
     [str_join [0x0A]
        (summary_header @
         concat (map (\<lambda>(i, q, a). [pergunta_line i q, resposta_line i a])
                     (enumerate 1 pairs)))]"
  by (simp add: summarize_markdown_def summary_lines_qa_items Let_def split: sum.splits)

lemma summary_header_not_Nil: "summary_header \<noteq> []"
  by (simp add: summary_header_def)

text \<open>The prompt for a list of pairs, as text.\<close>

lemma prompt_text_pairs:
  "snd (summarize_markdown gen to_str (map qa_item pairs)) =
     [ascii ''Resuma de forma objetiva as intera'' @ [0xE7, 0xF5] @ ascii ''es abaixo.'' @ [0x0A]
      @ [0x2022] @ ascii '' Traga AT'' @ [0xC9] @ ascii '' 8 t'' @ [0xF3]
      @ ascii ''picos (bullets).'' @ [0x0A]
      @ [0x2022] @ ascii '' Termine com 'Pr'' @ [0xF3] @ ascii ''ximas a'' @ [0xE7, 0xF5]
      @ ascii ''es:' e 3 itens.'' @ [0x0A]
      @ [0x0A]
      @ ascii ''Conte'' @ [0xFA] @ ascii ''do para resumir:''
      @ concat (map (\<lambda>(i, q, a).
                  [0x0A] @ ascii ''- Pergunta '' @ str_of_nat i @ ascii '': '' @ q
                  @ [0x0A] @ ascii ''- Resposta '' @ str_of_nat i @ ascii '': '' @ a)
                (enumerate 1 pairs))]"
proof -
  have "str_join [0x0A]
          (summary_header @
           concat (map (\<lambda>(i, q, a). [pergunta_line i q, resposta_line i a]) (enumerate 1 pairs))) =
        str_join [0x0A] summary_header @
        concat (map (\<lambda>(i, q, a). [0x0A] @ pergunta_line i q @ [0x0A] @ resposta_line i a)
                    (enumerate 1 pairs))"
    by (simp only: str_join_append [OF summary_header_not_Nil] concat_sep_pairs)
  then show ?thesis
    by (simp add: summarize_markdown_calls_pairs header_text pergunta_line_def resposta_line_def)
qed

lemma items_no_newline:
  "\<forall>p\<in>set pairs. 0x0A \<notin> set (fst p) \<and> 0x0A \<notin> set (snd p) \<Longrightarrow>
   \<forall>l\<in>set (concat (map (\<lambda>(i, q, a). [pergunta_line i q, resposta_line i a])
                          (enumerate n pairs))). 0x0A \<notin> set l"
  by (induction pairs arbitrary: n) (auto simp: item_lines_no_newline)

text \<open>Its lines, when no question and no answer holds a newline.\<close>

lemma prompt_lines_pairs:
  assumes "\<forall>p\<in>set pairs. 0x0A \<notin> set (fst p) \<and> 0x0A \<notin> set (snd p)"
  shows "map split_lines (snd (summarize_markdown gen to_str (map qa_item pairs))) =
     [[ascii ''Resuma de forma objetiva as intera'' @ [0xE7, 0xF5] @ ascii ''es abaixo.'',
       [0x2022] @ ascii '' Traga AT'' @ [0xC9] @ ascii '' 8 t'' @ [0xF3]
         @ ascii ''picos (bullets).'',
       [0x2022] @ ascii '' Termine com 'Pr'' @ [0xF3] @ ascii ''ximas a'' @ [0xE7, 0xF5]
         @ ascii ''es:' e 3 itens.'',
       [],
       ascii ''Conte'' @ [0xFA] @ ascii ''do para resumir:'']
      @ concat (map (\<lambda>(i, q, a).
                  [ascii ''- Pergunta '' @ str_of_nat i @ ascii '': '' @ q,
                   ascii ''- Resposta '' @ str_of_nat i @ ascii '': '' @ a])
                (enumerate 1 pairs))]"
proof -
  let ?items = "concat (map (\<lambda>(i, q, a). [pergunta_line i q, resposta_line i a])
                            (enumerate 1 pairs))"
  have items: "\<forall>l\<in>set ?items. 0x0A \<notin> set l"
    using assms by (rule items_no_newline)
  have "\<forall>l\<in>set (summary_header @ ?items). 0x0A \<notin> set l"
    using header_no_newline items by auto
  moreover have "summary_header @ ?items \<noteq> []"
    using summary_header_not_Nil by simp
  ultimately have "split_lines (str_join [0x0A] (summary_header @ ?items)) =
      summary_header @ ?items"
    by (rule split_lines_join [rotated])
  then have "map split_lines (snd (summarize_markdown gen to_str (map qa_item pairs))) =
      [summary_header @ ?items]"
    by (simp add: summarize_markdown_calls_pairs)
  also have "summary_header @ ?items =
      [ascii ''Resuma de forma objetiva as intera'' @ [0xE7, 0xF5] @ ascii ''es abaixo.'',
       [0x2022] @ ascii '' Traga AT'' @ [0xC9] @ ascii '' 8 t'' @ [0xF3]
         @ ascii ''picos (bullets).'',
       [0x2022] @ ascii '' Termine com 'Pr'' @ [0xF3] @ ascii ''ximas a'' @ [0xE7, 0xF5]
         @ ascii ''es:' e 3 itens.'',
       [],
       ascii ''Conte'' @ [0xFA] @ ascii ''do para resumir:'']
      @ concat (map (\<lambda>(i, q, a).
                  [ascii ''- Pergunta '' @ str_of_nat i @ ascii '': '' @ q,
                   ascii ''- Resposta '' @ str_of_nat i @ ascii '': '' @ a])
                (enumerate 1 pairs))"
    by (simp add: header_lines pergunta_line_def resposta_line_def)
  finally show ?thesis .
qed

text \<open>
  C2, amended. For every list of N question/answer pairs, the one prompt that
  \<open>summarize_markdown\<close> sends upstream is the fixed instruction block (at most 8 bullet
  topics, a closing next-actions section of 3 items) followed, for each pair in the order
  of the list and numbered i = 1..N, by a newline, "- Pergunta i: q", a newline and
  "- Resposta i: a", with q and a inserted as they are. When no q and no a holds a newline,
  the lines of the prompt are exactly the five lines of the instruction block followed by
  the N pairs of lines.
\<close>

theorem summary_prompt_text_and_lines:
  "snd (summarize_markdown gen to_str (map qa_item pairs)) =
     [ascii ''Resuma de forma objetiva as intera'' @ [0xE7, 0xF5] @ ascii ''es abaixo.'' @ [0x0A]
      @ [0x2022] @ ascii '' Traga AT'' @ [0xC9] @ ascii '' 8 t'' @ [0xF3]
      @ ascii ''picos (bullets).'' @ [0x0A]
      @ [0x2022] @ ascii '' Termine com 'Pr'' @ [0xF3] @ ascii ''ximas a'' @ [0xE7, 0xF5]
      @ ascii ''es:' e 3 itens.'' @ [0x0A]
      @ [0x0A]
      @ ascii ''Conte'' @ [0xFA] @ ascii ''do para resumir:''
      @ concat (map (\<lambda>(i, q, a).
                  [0x0A] @ ascii ''- Pergunta '' @ str_of_nat i @ ascii '': '' @ q
                  @ [0x0A] @ ascii ''- Resposta '' @ str_of_nat i @ ascii '': '' @ a)
                (enumerate 1 pairs))]
   \<and> ((\<forall>p\<in>set pairs. 0x0A \<notin> set (fst p) \<and> 0x0A \<notin> set (snd p)) \<longrightarrow>
      map split_lines (snd (summarize_markdown gen to_str (map qa_item pairs))) =
        [[ascii ''Resuma de forma objetiva as intera'' @ [0xE7, 0xF5] @ ascii ''es abaixo.'',
          [0x2022] @ ascii '' Traga AT'' @ [0xC9] @ ascii '' 8 t'' @ [0xF3]
            @ ascii ''picos (bullets).'',
          [0x2022] @ ascii '' Termine com 'Pr'' @ [0xF3] @ ascii ''ximas a'' @ [0xE7, 0xF5]
            @ ascii ''es:' e 3 itens.'',
          [],
          ascii ''Conte'' @ [0xFA] @ ascii ''do para resumir:'']
         @ concat (map (\<lambda>(i, q, a).
                     [ascii ''- Pergunta '' @ str_of_nat i @ ascii '': '' @ q,
                      ascii ''- Resposta '' @ str_of_nat i @ ascii '': '' @ a])
                   (enumerate 1 pairs))])"
  using prompt_text_pairs [of gen to_str pairs] prompt_lines_pairs [of pairs gen to_str]
  by blast

theorem summary_prompt_two_pairs:
  "snd (summarize_markdown fixed_model sample_to_str
          (map qa_item [(ascii ''x'', ascii ''y''), (ascii ''z'', ascii ''w'')])) =
     [ascii ''Resuma de forma objetiva as intera'' @ [0xE7, 0xF5] @ ascii ''es abaixo.'' @ [0x0A]
      @ [0x2022] @ ascii '' Traga AT'' @ [0xC9] @ ascii '' 8 t'' @ [0xF3]
      @ ascii ''picos (bullets).'' @ [0x0A]
      @ [0x2022] @ ascii '' Termine com 'Pr'' @ [0xF3] @ ascii ''ximas a'' @ [0xE7, 0xF5]
      @ ascii ''es:' e 3 itens.'' @ [0x0A]
      @ [0x0A]
      @ ascii ''Conte'' @ [0xFA] @ ascii ''do para resumir:'' @ [0x0A]
      @ ascii ''- Pergunta 1: x'' @ [0x0A]
      @ ascii ''- Resposta 1: y'' @ [0x0A]
      @ ascii ''- Pergunta 2: z'' @ [0x0A]
      @ ascii ''- Resposta 2: w'']
   \<and> map split_lines (snd (summarize_markdown fixed_model sample_to_str
          (map qa_item [(ascii ''x'', ascii ''y''), (ascii ''z'', ascii ''w'')]))) =
     [[ascii ''Resuma de forma objetiva as intera'' @ [0xE7, 0xF5] @ ascii ''es abaixo.'',
       [0x2022] @ ascii '' Traga AT'' @ [0xC9] @ ascii '' 8 t'' @ [0xF3]
         @ ascii ''picos (bullets).'',
       [0x2022] @ ascii '' Termine com 'Pr'' @ [0xF3] @ ascii ''ximas a'' @ [0xE7, 0xF5]
         @ ascii ''es:' e 3 itens.'',
       [],
       ascii ''Conte'' @ [0xFA] @ ascii ''do para resumir:'',
       ascii ''- Pergunta 1: x'', ascii ''- Resposta 1: y'',
       ascii ''- Pergunta 2: z'', ascii ''- Resposta 2: w'']]
   \<and> str_of_nat 12 = ascii ''12''"
proof -
  have nl: "\<forall>p\<in>set [(ascii ''x'', ascii ''y''), (ascii ''z'', ascii ''w'')].
              0x0A \<notin> set (fst p) \<and> 0x0A \<notin> set (snd p)"
    by (simp add: ascii_def)
  have "str_of_nat 12 = ascii ''12''"
    by (simp add: str_of_nat.simps ascii_def)
  with nl show ?thesis
    using summary_prompt_text_and_lines
      [of fixed_model sample_to_str "[(ascii ''x'', ascii ''y''), (ascii ''z'', ascii ''w'')]"]
    by (simp add: str_of_nat.simps ascii_def)
qed

text \<open>
  C2 as stated fails: q and a are inserted unescaped, so a list of one pair whose answer
  holds newlines gives the very prompt of a list of two pairs, and that prompt has two
  question lines.
\<close>

theorem one_pair_prompt_has_two_question_lines:
  "map (\<lambda>p. filter (prefix (ascii ''- Pergunta '')) (split_lines p))
     (snd (summarize_markdown fixed_model sample_to_str
        (map qa_item
           [(ascii ''x'',
             ascii ''y'' @ [0x0A] @ ascii ''- Pergunta 2: z'' @ [0x0A] @ ascii ''- Resposta 2: w'')]))) =
     [[ascii ''- Pergunta 1: x'', ascii ''- Pergunta 2: z'']]
   \<and> snd (summarize_markdown fixed_model sample_to_str
        (map qa_item
           [(ascii ''x'',
             ascii ''y'' @ [0x0A] @ ascii ''- Pergunta 2: z'' @ [0x0A] @ ascii ''- Resposta 2: w'')])) =
     snd (summarize_markdown fixed_model sample_to_str
        (map qa_item [(ascii ''x'', ascii ''y''), (ascii ''z'', ascii ''w'')]))"
proof -
  let ?one = "[(ascii ''x'',
             ascii ''y'' @ [0x0A] @ ascii ''- Pergunta 2: z'' @ [0x0A] @ ascii ''- Resposta 2: w'')]"
  let ?two = "[(ascii ''x'', ascii ''y''), (ascii ''z'', ascii ''w'')]"
  have same: "snd (summarize_markdown fixed_model sample_to_str (map qa_item ?one)) =
              snd (summarize_markdown fixed_model sample_to_str (map qa_item ?two))"
    by (simp only: prompt_text_pairs) (simp add: str_of_nat.simps ascii_def)
  have nl: "\<forall>p\<in>set ?two. 0x0A \<notin> set (fst p) \<and> 0x0A \<notin> set (snd p)"
    by (simp add: ascii_def)
  have lines: "map split_lines (snd (summarize_markdown fixed_model sample_to_str (map qa_item ?two))) =
     [[ascii ''Resuma de forma objetiva as intera'' @ [0xE7, 0xF5] @ ascii ''es abaixo.'',
       [0x2022] @ ascii '' Traga AT'' @ [0xC9] @ ascii '' 8 t'' @ [0xF3]
         @ ascii ''picos (bullets).'',
       [0x2022] @ ascii '' Termine com 'Pr'' @ [0xF3] @ ascii ''ximas a'' @ [0xE7, 0xF5]
         @ ascii ''es:' e 3 itens.'',
       [],
       ascii ''Conte'' @ [0xFA] @ ascii ''do para resumir:'',
       ascii ''- Pergunta 1: x'', ascii ''- Resposta 1: y'',
       ascii ''- Pergunta 2: z'', ascii ''- Resposta 2: w'']]"
    using prompt_lines_pairs [OF nl, of fixed_model sample_to_str]
    by (simp add: str_of_nat.simps ascii_def)
  have "map (\<lambda>p. filter (prefix (ascii ''- Pergunta '')) (split_lines p))
          (snd (summarize_markdown fixed_model sample_to_str (map qa_item ?two))) =
        map (filter (prefix (ascii ''- Pergunta '')))
          (map split_lines (snd (summarize_markdown fixed_model sample_to_str (map qa_item ?two))))"
    by simp
  also have "\<dots> = [[ascii ''- Pergunta 1: x'', ascii ''- Pergunta 2: z'']]"
    unfolding lines by (simp add: ascii_def)
  finally show ?thesis
    using same by simp
qed

text \<open>
  C1 as stated fails: the body \<open>{"qa": []}\<close> is rejected. An empty list is falsy, so
  \<open>not qa\<close> holds and the route answers 400 without building a prompt.
\<close>

theorem summarize_empty_qa_is_rejected:
  "summarize fixed_model sample_to_str sample_enc (Json (PyDict [(ascii ''qa'', PyList [])])) =
     (Inr (Response 400
        (PyDict [(ascii ''error'', PyStr (ascii ''Campo 'qa' deve ser uma lista''))])), [])"
  by (simp add: summarize_empty_list error_payload_def qa_must_be_list_def)

text \<open>
  C1, amended. A POST to the summarize endpoint with body \<open>{"qa": []}\<close> gets the 400
  response of the route and nothing is sent upstream. The helper \<open>summarize_markdown\<close>
  itself, given the empty list, sends one prompt: the instruction header, whose five lines
  are the whole prompt, with no "Pergunta"/"Resposta" line.
\<close>

theorem empty_qa_rejected_by_route_header_only_in_helper:
  "summarize gen to_str enc (Json (PyDict [(ascii ''qa'', PyList [])])) =
     (Inr (Response 400
        (PyDict [(ascii ''error'', PyStr (ascii ''Campo 'qa' deve ser uma lista''))])), [])
   \<and> snd (summarize_markdown gen to_str []) =
     [ascii ''Resuma de forma objetiva as intera'' @ [0xE7, 0xF5] @ ascii ''es abaixo.'' @ [0x0A]
      @ [0x2022] @ ascii '' Traga AT'' @ [0xC9] @ ascii '' 8 t'' @ [0xF3]
      @ ascii ''picos (bullets).'' @ [0x0A]
      @ [0x2022] @ ascii '' Termine com 'Pr'' @ [0xF3] @ ascii ''ximas a'' @ [0xE7, 0xF5]
      @ ascii ''es:' e 3 itens.'' @ [0x0A]
      @ [0x0A]
      @ ascii ''Conte'' @ [0xFA] @ ascii ''do para resumir:'']
   \<and> map split_lines (snd (summarize_markdown gen to_str [])) =
     [[ascii ''Resuma de forma objetiva as intera'' @ [0xE7, 0xF5] @ ascii ''es abaixo.'',
       [0x2022] @ ascii '' Traga AT'' @ [0xC9] @ ascii '' 8 t'' @ [0xF3]
         @ ascii ''picos (bullets).'',
       [0x2022] @ ascii '' Termine com 'Pr'' @ [0xF3] @ ascii ''ximas a'' @ [0xE7, 0xF5]
         @ ascii ''es:' e 3 itens.'',
       [],
       ascii ''Conte'' @ [0xFA] @ ascii ''do para resumir:'']]"
proof -
  have "summarize gen to_str enc (Json (PyDict [(ascii ''qa'', PyList [])])) =
     (Inr (Response 400
        (PyDict [(ascii ''error'', PyStr (ascii ''Campo 'qa' deve ser uma lista''))])), [])"
    by (simp add: summarize_empty_list error_payload_def qa_must_be_list_def)
  moreover note prompt_text_pairs [of gen to_str "[]"] prompt_lines_pairs [of "[]" gen to_str]
  ultimately show ?thesis by simp
qed

theorem empty_qa_with_fixed_model:
  "summarize fixed_model sample_to_str sample_enc (Json (PyDict [(ascii ''qa'', PyList [])])) =
     (Inr (Response 400
        (PyDict [(ascii ''error'', PyStr (ascii ''Campo 'qa' deve ser uma lista''))])), [])
   \<and> snd (summarize_markdown fixed_model sample_to_str []) =
     [ascii ''Resuma de forma objetiva as intera'' @ [0xE7, 0xF5] @ ascii ''es abaixo.'' @ [0x0A]
      @ [0x2022] @ ascii '' Traga AT'' @ [0xC9] @ ascii '' 8 t'' @ [0xF3]
      @ ascii ''picos (bullets).'' @ [0x0A]
      @ [0x2022] @ ascii '' Termine com 'Pr'' @ [0xF3] @ ascii ''ximas a'' @ [0xE7, 0xF5]
      @ ascii ''es:' e 3 itens.'' @ [0x0A]
      @ [0x0A]
      @ ascii ''Conte'' @ [0xFA] @ ascii ''do para resumir:'']
   \<and> map split_lines (snd (summarize_markdown fixed_model sample_to_str [])) =
     [[ascii ''Resuma de forma objetiva as intera'' @ [0xE7, 0xF5] @ ascii ''es abaixo.'',
       [0x2022] @ ascii '' Traga AT'' @ [0xC9] @ ascii '' 8 t'' @ [0xF3]
         @ ascii ''picos (bullets).'',
       [0x2022] @ ascii '' Termine com 'Pr'' @ [0xF3] @ ascii ''ximas a'' @ [0xE7, 0xF5]
         @ ascii ''es:' e 3 itens.'',
       [],
       ascii ''Conte'' @ [0xFA] @ ascii ''do para resumir:'']]"
  by (rule empty_qa_rejected_by_route_header_only_in_helper)

section \<open>The answer prompt\<close>

lemma answer_prompt_text:
  "answer_prompt q =
     ascii ''Responda no contexto acima **em Markdown**. Use t'' @ [0xED]
     @ ascii ''tulos curtos (##), listas quando fizer sentido e blocos de c'' @ [0xF3]
     @ ascii ''digo com a linguagem quando houver trechos de c'' @ [0xF3]
     @ ascii ''digo. '' @ [0x0A] @ ascii ''Pergunta do usu'' @ [0xE1] @ ascii ''rio: '' @ q"
  by (simp add: answer_prompt_def ascii_def)

lemma generate_calls: "snd (generate_markdown_answer gen q) = [answer_prompt q]"
  by (simp add: generate_markdown_answer_def Let_def split: sum.splits)

lemma ask_valid_calls:
  "map_of kvs (ascii ''question'') = Some (PyStr q) \<Longrightarrow> strip q \<noteq> [] \<Longrightarrow>
   snd (ask gen enc (Json (PyDict kvs))) = [answer_prompt (strip q)]"
  using generate_calls [of gen "strip q"]
  by (auto simp: ask_valid_question split: prod.splits)

lemma strip_oi_space: "strip (ascii ''oi '') = ascii ''oi''"
  by (simp add: strip_def lstrip_def rstrip_def is_space_def ascii_def)

lemma strip_oi: "strip (ascii ''oi'') = ascii ''oi''"
  by (simp add: strip_def lstrip_def rstrip_def is_space_def ascii_def)

text \<open>
  C3 as stated fails: the question "oi " is not empty after trimming, one prompt is sent,
  and that prompt ends in "oi", so it does not contain "oi " (with its trailing space).
\<close>

theorem ask_prompt_lacks_untrimmed_question:
  "strip (ascii ''oi '') \<noteq> []
   \<and> snd (ask fixed_model sample_enc
            (Json (PyDict [(ascii ''question'', PyStr (ascii ''oi ''))]))) =
       [ascii ''Responda no contexto acima **em Markdown**. Use t'' @ [0xED]
        @ ascii ''tulos curtos (##), listas quando fizer sentido e blocos de c'' @ [0xF3]
        @ ascii ''digo com a linguagem quando houver trechos de c'' @ [0xF3]
        @ ascii ''digo. '' @ [0x0A] @ ascii ''Pergunta do usu'' @ [0xE1] @ ascii ''rio: oi'']
   \<and> \<not> sublist (ascii ''oi '')
        (ascii ''Responda no contexto acima **em Markdown**. Use t'' @ [0xED]
         @ ascii ''tulos curtos (##), listas quando fizer sentido e blocos de c'' @ [0xF3]
         @ ascii ''digo com a linguagem quando houver trechos de c'' @ [0xF3]
         @ ascii ''digo. '' @ [0x0A] @ ascii ''Pergunta do usu'' @ [0xE1] @ ascii ''rio: oi'')"
proof -
  have ne: "strip (ascii ''oi '') \<noteq> []"
    by (simp add: strip_oi_space) (simp add: ascii_def)
  have m: "map_of [(ascii ''question'', PyStr (ascii ''oi ''))] (ascii ''question'')
             = Some (PyStr (ascii ''oi ''))"
    by simp
  have calls: "snd (ask fixed_model sample_enc
            (Json (PyDict [(ascii ''question'', PyStr (ascii ''oi ''))]))) =
       [ascii ''Responda no contexto acima **em Markdown**. Use t'' @ [0xED]
        @ ascii ''tulos curtos (##), listas quando fizer sentido e blocos de c'' @ [0xF3]
        @ ascii ''digo com a linguagem quando houver trechos de c'' @ [0xF3]
        @ ascii ''digo. '' @ [0x0A] @ ascii ''Pergunta do usu'' @ [0xE1] @ ascii ''rio: oi'']"
    unfolding ask_valid_calls [OF m ne] strip_oi_space answer_prompt_text
    by (simp add: ascii_def)
  have "\<not> sublist (ascii ''oi '')
        (ascii ''Responda no contexto acima **em Markdown**. Use t'' @ [0xED]
         @ ascii ''tulos curtos (##), listas quando fizer sentido e blocos de c'' @ [0xF3]
         @ ascii ''digo com a linguagem quando houver trechos de c'' @ [0xF3]
         @ ascii ''digo. '' @ [0x0A] @ ascii ''Pergunta do usu'' @ [0xE1] @ ascii ''rio: oi'')"
    by (simp add: ascii_def sublist_code)
  with ne calls show ?thesis by blast
qed

text \<open>
  C3, amended. For every string Q that is not empty after trimming, a POST to the ask
  endpoint whose object holds "question": Q sends exactly one prompt upstream, and that
  prompt is the fixed Markdown-formatting template followed by Q trimmed of its leading and
  trailing whitespace; so it contains the trimmed Q verbatim.
\<close>

theorem ask_prompt_holds_trimmed_question:
  assumes "map_of kvs (ascii ''question'') = Some (PyStr q)" and "strip q \<noteq> []"
  shows "snd (ask gen enc (Json (PyDict kvs))) =
           [ascii ''Responda no contexto acima **em Markdown**. Use t'' @ [0xED]
            @ ascii ''tulos curtos (##), listas quando fizer sentido e blocos de c'' @ [0xF3]
            @ ascii ''digo com a linguagem quando houver trechos de c'' @ [0xF3]
            @ ascii ''digo. '' @ [0x0A] @ ascii ''Pergunta do usu'' @ [0xE1] @ ascii ''rio: ''
            @ strip q]
         \<and> (\<forall>p\<in>set (snd (ask gen enc (Json (PyDict kvs)))). sublist (strip q) p)"
proof -
  have calls: "snd (ask gen enc (Json (PyDict kvs))) =
           [ascii ''Responda no contexto acima **em Markdown**. Use t'' @ [0xED]
            @ ascii ''tulos curtos (##), listas quando fizer sentido e blocos de c'' @ [0xF3]
            @ ascii ''digo com a linguagem quando houver trechos de c'' @ [0xF3]
            @ ascii ''digo. '' @ [0x0A] @ ascii ''Pergunta do usu'' @ [0xE1] @ ascii ''rio: ''
            @ strip q]"
    unfolding ask_valid_calls [OF assms] answer_prompt_text by simp
  have "sublist (strip q) (answer_prompt [] @ strip q)"
    by (simp add: sublist_append)
  moreover have "answer_prompt (strip q) = answer_prompt [] @ strip q"
    by (simp add: answer_prompt_def)
  ultimately have "\<forall>p\<in>set (snd (ask gen enc (Json (PyDict kvs)))). sublist (strip q) p"
    by (simp add: ask_valid_calls [OF assms])
  with calls show ?thesis by blast
qed

theorem ask_prompt_for_oi:
  "snd (ask fixed_model sample_enc
          (Json (PyDict [(ascii ''question'', PyStr (ascii ''oi ''))]))) =
     [ascii ''Responda no contexto acima **em Markdown**. Use t'' @ [0xED]
      @ ascii ''tulos curtos (##), listas quando fizer sentido e blocos de c'' @ [0xF3]
      @ ascii ''digo com a linguagem quando houver trechos de c'' @ [0xF3]
      @ ascii ''digo. '' @ [0x0A] @ ascii ''Pergunta do usu'' @ [0xE1] @ ascii ''rio: oi'']"
proof -
  have ne: "strip (ascii ''oi '') \<noteq> []"
    by (simp add: strip_oi_space) (simp add: ascii_def)
  have m: "map_of [(ascii ''question'', PyStr (ascii ''oi ''))] (ascii ''question'')
             = Some (PyStr (ascii ''oi ''))"
    by simp
  from ask_prompt_holds_trimmed_question [OF m ne, of fixed_model sample_enc]
  have "snd (ask fixed_model sample_enc
          (Json (PyDict [(ascii ''question'', PyStr (ascii ''oi ''))]))) =
     [ascii ''Responda no contexto acima **em Markdown**. Use t'' @ [0xED]
      @ ascii ''tulos curtos (##), listas quando fizer sentido e blocos de c'' @ [0xF3]
      @ ascii ''digo com a linguagem quando houver trechos de c'' @ [0xF3]
      @ ascii ''digo. '' @ [0x0A] @ ascii ''Pergunta do usu'' @ [0xE1] @ ascii ''rio: ''
      @ strip (ascii ''oi '')]"
    by (rule conjunct1)
  then show ?thesis
    unfolding strip_oi_space by (simp add: ascii_def)
qed

section \<open>Upstream failures\<close>

lemma generate_result:
  "fst (generate_markdown_answer gen q) =
     (case gen (answer_prompt q) of Inl e \<Rightarrow> Inl e | Inr r \<Rightarrow> response_text answer_fallback r)"
  by (simp add: generate_markdown_answer_def Let_def split: sum.splits)

lemma summarize_markdown_result:
  "fst (summarize_markdown gen to_str qa) =
     (case summary_lines to_str 1 summary_header qa of
        Inl e \<Rightarrow> Inl e
      | Inr linhas \<Rightarrow>
          (case gen (str_join [0x0A] linhas) of
             Inl e \<Rightarrow> Inl e
           | Inr r \<Rightarrow> response_text summary_fallback r))"
  by (simp add: summarize_markdown_def Let_def split: sum.splits)


text \<open>When a route has sent a prompt, its result is that of the \<open>try\<close> block and handler.\<close>

lemma ask_unfold:
  "ask gen enc b =
     (case dict_get (py_or (get_json_silent b) (PyDict [])) (ascii ''question'') PyNone of
        Inl e \<Rightarrow> (Inl e, [])
      | Inr v \<Rightarrow>
          (case str_strip (py_or v (PyStr [])) of
             Inl e \<Rightarrow> (Inl e, [])
           | Inr question \<Rightarrow>
               if question = [] then (jsonify enc (error_payload question_required) 400, [])
               else
                 (try_except
                    (case fst (generate_markdown_answer gen question) of
                       Inl e \<Rightarrow> Inl e
                     | Inr answer \<Rightarrow>
                         jsonify enc (PyDict [(ascii ''answer'', PyStr answer)]) 200)
                    (\<lambda>e. jsonify enc
                           (error_payload (ascii ''Erro ao gerar resposta: '' @ exn_str e)) 500),
                  [answer_prompt question])))"
  by (simp add: ask_def Let_def case_prod_unfold generate_calls split: sum.splits)

lemma summarize_unfold:
  "summarize gen to_str enc b =
     (case dict_get (py_or (get_json_silent b) (PyDict [])) (ascii ''qa'') PyNone of
        Inl e \<Rightarrow> (Inl e, [])
      | Inr qa \<Rightarrow>
          if \<not> truthy qa \<or> \<not> is_list qa then
            (jsonify enc (error_payload qa_must_be_list) 400, [])
          else
            (try_except
               (case fst (summarize_markdown gen to_str (list_items qa)) of
                  Inl e \<Rightarrow> Inl e
                | Inr summary \<Rightarrow>
                    jsonify enc (PyDict [(ascii ''summary'', PyStr summary)]) 200)
               (\<lambda>e. jsonify enc
                      (error_payload (ascii ''Erro ao gerar resumo: '' @ exn_str e)) 500),
             snd (summarize_markdown gen to_str (list_items qa))))"
  by (simp add: summarize_def Let_def case_prod_unfold split: sum.splits)











section \<open>Rejected requests\<close>

text \<open>
  C5. A POST to the ask endpoint whose JSON object has no "question" key, or whose
  "question" is a string that is empty or blank after trimming, gets the 400 response
  with the message "Campo 'question' \<dots>", and nothing is sent upstream.
\<close>

theorem ask_rejects_missing_or_blank_question:
  assumes "map_of kvs (ascii ''question'') = None \<or>
           (\<exists>s. map_of kvs (ascii ''question'') = Some (PyStr s) \<and> strip s = [])"
  shows "ask gen enc (Json (PyDict kvs)) =
           (Inr (Response 400 (error_payload question_required)), [])"
  using assms ask_no_question ask_blank_question by blast

theorem ask_rejects_three_spaces:
  "ask fixed_model sample_enc (Json (PyDict [(ascii ''question'', PyStr (ascii ''   ''))])) =
     (Inr (Response 400 (error_payload question_required)), [])
   \<and> ask fixed_model sample_enc (Json (PyDict [(ascii ''pergunta'', PyStr (ascii ''oi''))])) =
     (Inr (Response 400 (error_payload question_required)), [])"
proof -
  have "strip (ascii ''   '') = []"
    by (simp add: strip_def lstrip_def rstrip_def is_space_def ascii_def)
  moreover have "map_of [(ascii ''pergunta'', PyStr (ascii ''oi''))] (ascii ''question'') = None"
    by (simp add: ascii_def)
  ultimately show ?thesis
    using ask_rejects_missing_or_blank_question
      [of "[(ascii ''question'', PyStr (ascii ''   ''))]" fixed_model sample_enc]
      ask_rejects_missing_or_blank_question
      [of "[(ascii ''pergunta'', PyStr (ascii ''oi''))]" fixed_model sample_enc]
    by simp
qed

text \<open>
  C6. A POST to the summarize endpoint whose JSON object has no "qa" key, or whose "qa"
  is not a list, gets the 400 response, and nothing is sent upstream.
\<close>

theorem summarize_rejects_missing_or_non_list:
  assumes "map_of kvs (ascii ''qa'') = None \<or>
           (\<exists>v. map_of kvs (ascii ''qa'') = Some v \<and> \<not> is_list v)"
  shows "summarize gen to_str enc (Json (PyDict kvs)) =
           (Inr (Response 400 (error_payload qa_must_be_list)), [])"
  using assms summarize_no_qa summarize_not_list by blast

theorem summarize_rejects_string_qa:
  "summarize fixed_model sample_to_str sample_enc
     (Json (PyDict [(ascii ''qa'', PyStr (ascii ''abc''))])) =
     (Inr (Response 400 (error_payload qa_must_be_list)), [])
   \<and> summarize fixed_model sample_to_str sample_enc (Json (PyDict [(ascii ''q'', PyList [])])) =
     (Inr (Response 400 (error_payload qa_must_be_list)), [])"
proof -
  have "map_of [(ascii ''q'', PyList [])] (ascii ''qa'') = None"
    by (simp add: ascii_def)
  then show ?thesis
    using summarize_rejects_missing_or_non_list
      [of "[(ascii ''qa'', PyStr (ascii ''abc''))]" fixed_model sample_to_str sample_enc]
      summarize_rejects_missing_or_non_list
      [of "[(ascii ''q'', PyList [])]" fixed_model sample_to_str sample_enc]
    by simp
qed

section \<open>Startup and health\<close>

text \<open>
  C7. When, after the \<open>.env\<close> file is loaded, GEMINI_API_KEY is unset or empty, the module's
  top level raises the \<open>RuntimeError\<close> and the process handles no request; when the
  variable holds a non-empty key, startup completes with that key and requests are
  dispatched.
\<close>

theorem startup_requires_api_key:
  "(load_dotenv dotenv env (ascii ''GEMINI_API_KEY'') = None \<or>
    load_dotenv dotenv env (ascii ''GEMINI_API_KEY'') = Some [] \<longrightarrow>
      startup dotenv env = Inl (RuntimeError missing_key_message) \<and>
      process dotenv env gen to_str enc reqs = Inl (RuntimeError missing_key_message))
   \<and> (load_dotenv dotenv env (ascii ''GEMINI_API_KEY'') = Some k \<and> k \<noteq> [] \<longrightarrow>
      startup dotenv env =
        Inr \<lparr>api_key = k, model_name = MODEL_NAME, max_output_tokens = 800\<rparr> \<and>
      process dotenv env gen to_str enc reqs = Inr (map (dispatch gen to_str enc) reqs))"
  by (auto simp: startup_def process_def)

lemma health_ok: "health enc = Inr (Response 200 (PyDict [(ascii ''ok'', PyBool True)]))"
  by (simp add: health_def jsonify_def encodable_keys)

theorem startup_with_and_without_key:
  "process Map.empty Map.empty fixed_model sample_to_str sample_enc [GetHealth] =
     Inl (RuntimeError missing_key_message)
   \<and> process Map.empty sample_environ fixed_model sample_to_str sample_enc [GetHealth] =
     Inr [(Inr (Response 200 (PyDict [(ascii ''ok'', PyBool True)])), [])]
   \<and> process [ascii ''GEMINI_API_KEY'' \<mapsto> []] sample_environ fixed_model sample_to_str
       sample_enc [GetHealth] =
     Inl (RuntimeError missing_key_message)"
proof -
  have a: "load_dotenv Map.empty Map.empty (ascii ''GEMINI_API_KEY'') = None"
    by (simp add: load_dotenv_def)
  have b: "load_dotenv Map.empty sample_environ (ascii ''GEMINI_API_KEY'') = Some (ascii ''k123'')"
    by (simp add: load_dotenv_def sample_environ_def)
  have c: "load_dotenv [ascii ''GEMINI_API_KEY'' \<mapsto> []] sample_environ (ascii ''GEMINI_API_KEY'')
             = Some []"
    by (simp add: load_dotenv_def sample_environ_def)
  have ne: "ascii ''k123'' \<noteq> []" by (simp add: ascii_def)
  show ?thesis
    using startup_requires_api_key
        [of Map.empty Map.empty fixed_model sample_to_str sample_enc "[GetHealth]" "[]"]
      startup_requires_api_key
        [of Map.empty sample_environ fixed_model sample_to_str sample_enc "[GetHealth]"
            "ascii ''k123''"]
      startup_requires_api_key
        [of "[ascii ''GEMINI_API_KEY'' \<mapsto> []]" sample_environ fixed_model sample_to_str
            sample_enc "[GetHealth]" "[]"]
      a b c ne
    by (simp add: health_ok)
qed

text \<open>
  C8. A GET to the health endpoint returns the 200 response \<open>{"ok": true}\<close> whatever the
  upstream model is; the route raises nothing and sends nothing upstream.
\<close>

theorem health_always_ok:
  "dispatch gen to_str enc GetHealth =
     (Inr (Response 200 (PyDict [(ascii ''ok'', PyBool True)])), [])"
  by (simp add: health_ok)

theorem health_ok_with_failing_upstream:
  "dispatch failing_model sample_to_str sample_enc GetHealth =
     (Inr (Response 200 (PyDict [(ascii ''ok'', PyBool True)])), [])"
  using health_always_ok [of failing_model sample_to_str sample_enc] by simp

section \<open>Bodies that are not objects\<close>

text \<open>An absent body and one that does not parse are handled as the empty object is.\<close>

lemma absent_body_is_empty_object:
  "ask gen enc Absent = ask gen enc (Json (PyDict []))
   \<and> ask gen enc Malformed = ask gen enc (Json (PyDict []))
   \<and> summarize gen to_str enc Absent = summarize gen to_str enc (Json (PyDict []))
   \<and> summarize gen to_str enc Malformed = summarize gen to_str enc (Json (PyDict []))"
  by (simp add: ask_def summarize_def py_or_def)

text \<open>A falsy JSON value that is not an object is replaced by the empty object too.\<close>

lemma falsy_body_is_empty_object:
  "\<not> truthy v \<Longrightarrow>
   ask gen enc (Json v) = ask gen enc (Json (PyDict [])) \<and>
   summarize gen to_str enc (Json v) = summarize gen to_str enc (Json (PyDict []))"
  by (simp add: ask_def summarize_def py_or_def)

text \<open>
  C10. The body \<open>[1]\<close> is valid JSON and not an object. It is truthy, so \<open>or {}\<close> keeps it,
  and \<open>data.get\<close> raises an \<open>AttributeError\<close> before the \<open>try\<close>: the exception leaves the
  route, and no 400 response is produced.
\<close>

theorem non_object_body_raises:
  "ask gen enc (Json (PyList [PyInt 1])) =
     (Inl (no_attribute (PyList [PyInt 1]) (ascii ''get'')), [])
   \<and> summarize gen to_str enc (Json (PyList [PyInt 1])) =
       (Inl (no_attribute (PyList [PyInt 1]) (ascii ''get'')), [])"
  by (simp add: ask_def summarize_def py_or_def)

theorem list_body_attribute_error:
  "ask fixed_model sample_enc (Json (PyList [PyInt 1])) =
     (Inl (AttributeError (ascii [CHR 0x27] @ ascii ''list'' @ ascii [CHR 0x27]
        @ ascii '' object has no attribute ''
        @ ascii [CHR 0x27] @ ascii ''get'' @ ascii [CHR 0x27])), [])
   \<and> summarize fixed_model sample_to_str sample_enc (Json (PyList [PyInt 1])) =
       (Inl (no_attribute (PyList [PyInt 1]) (ascii ''get'')), [])"
  using non_object_body_raises [of fixed_model sample_enc sample_to_str]
  by (simp add: no_attribute_def)

section \<open>Fallback texts\<close>

lemma answer_fallback_not_blank:
  "answer_fallback \<noteq> [] \<and> (\<exists>c\<in>set answer_fallback. \<not> is_space c)"
proof -
  have "78 \<in> set answer_fallback" by (simp add: answer_fallback_def ascii_def)
  moreover have "\<not> is_space 78" by (simp add: is_space_def)
  ultimately show ?thesis by auto
qed

lemma summary_fallback_not_blank:
  "summary_fallback \<noteq> [] \<and> (\<exists>c\<in>set summary_fallback. \<not> is_space c)"
proof -
  have "78 \<in> set summary_fallback" by (simp add: summary_fallback_def ascii_def)
  moreover have "\<not> is_space 78" by (simp add: is_space_def)
  ultimately show ?thesis by auto
qed

lemma encodable_fallbacks: "encodable answer_fallback" "encodable summary_fallback"
  by (simp_all add: answer_fallback_def summary_fallback_def encodable_def is_surrogate_def
        ascii_def)

lemma str_strip_Inr: "str_strip v = Inr s \<Longrightarrow> \<exists>u. v = PyStr u \<and> s = strip u"
  by (cases v) auto

text \<open>The text taken from a response is the trimmed text when that is not empty, and the
  fallback otherwise; neither is blank.\<close>

lemma response_text_not_blank:
  assumes "response_text fb r = Inr s" and "fb \<noteq> [] \<and> (\<exists>c\<in>set fb. \<not> is_space c)"
  shows "s \<noteq> [] \<and> (\<exists>c\<in>set s. \<not> is_space c)"
proof -
  from assms(1) obtain t s0 where t: "getattr_text r = Inr t"
    and s0: "str_strip (py_or t (PyStr [])) = Inr s0"
    and s: "s = (if s0 \<noteq> [] then s0 else fb)"
    by (auto simp: response_text_def split: sum.splits)
  from str_strip_Inr [OF s0] obtain u where u: "s0 = strip u" by blast
  show ?thesis
  proof (cases "s0 = []")
    case True
    with s assms(2) show ?thesis by simp
  next
    case False
    with u strip_not_blank [of u] s show ?thesis by simp
  qed
qed

lemma response_text_fallback:
  assumes "r = NoTextAttr \<or> r = TextIs PyNone \<or> (\<exists>t. r = TextIs (PyStr t) \<and> strip t = [])"
  shows "response_text fb r = Inr fb"
  using assms by (auto simp: response_text_def)

lemma generate_not_blank:
  "fst (generate_markdown_answer gen q) = Inr s \<Longrightarrow> s \<noteq> [] \<and> (\<exists>c\<in>set s. \<not> is_space c)"
  using response_text_not_blank [OF _ answer_fallback_not_blank]
  by (auto simp: generate_result split: sum.splits)

lemma summarize_markdown_not_blank:
  "fst (summarize_markdown gen to_str qa) = Inr s \<Longrightarrow> s \<noteq> [] \<and> (\<exists>c\<in>set s. \<not> is_space c)"
  using response_text_not_blank [OF _ summary_fallback_not_blank]
  by (auto simp: summarize_markdown_result split: sum.splits)

text \<open>A 200 response of a route carries what its helper returned.\<close>

lemma try_200:
  assumes "try_except
             (case r of Inl e \<Rightarrow> Inl e | Inr s \<Rightarrow> jsonify enc (PyDict [(k, PyStr s)]) 200)
             (\<lambda>e. jsonify enc (error_payload (m e)) 500) = Inr (Response 200 p)"
  shows "\<exists>s. r = Inr s \<and> p = PyDict [(k, PyStr s)]"
  using assms
  by (auto simp: try_except_def jsonify_def split: sum.splits if_splits)

lemma ask_200:
  assumes "ask gen enc b = (Inr (Response 200 p), calls)"
  shows "\<exists>s q. p = PyDict [(ascii ''answer'', PyStr s)] \<and>
           fst (generate_markdown_answer gen q) = Inr s"
proof (cases "dict_get (py_or (get_json_silent b) (PyDict [])) (ascii ''question'') PyNone")
  case (Inl e)
  with assms show ?thesis by (simp add: ask_unfold)
next
  case v: (Inr v)
  show ?thesis
  proof (cases "str_strip (py_or v (PyStr []))")
    case (Inl e)
    with v assms show ?thesis by (simp add: ask_unfold)
  next
    case q: (Inr question)
    show ?thesis
    proof (cases "question = []")
      case True
      with v q assms show ?thesis
        by (simp add: ask_unfold jsonify_error encodable_question_required)
    next
      case False
      with v q assms have
        "try_except
           (case fst (generate_markdown_answer gen question) of
              Inl e \<Rightarrow> Inl e
            | Inr s \<Rightarrow> jsonify enc (PyDict [(ascii ''answer'', PyStr s)]) 200)
           (\<lambda>e. jsonify enc
                  (error_payload (ascii ''Erro ao gerar resposta: '' @ exn_str e)) 500) =
         Inr (Response 200 p)"
        by (simp add: ask_unfold)
      from try_200 [OF this] show ?thesis by blast
    qed
  qed
qed

lemma summarize_200:
  assumes "summarize gen to_str enc b = (Inr (Response 200 p), calls)"
  shows "\<exists>s qa. p = PyDict [(ascii ''summary'', PyStr s)] \<and>
           fst (summarize_markdown gen to_str qa) = Inr s"
proof (cases "dict_get (py_or (get_json_silent b) (PyDict [])) (ascii ''qa'') PyNone")
  case (Inl e)
  with assms show ?thesis by (simp add: summarize_unfold)
next
  case qa: (Inr qa)
  show ?thesis
  proof (cases "\<not> truthy qa \<or> \<not> is_list qa")
    case True
    with qa assms show ?thesis
      by (simp add: summarize_unfold jsonify_error encodable_qa_must_be_list)
  next
    case False
    with qa assms have
      "try_except
         (case fst (summarize_markdown gen to_str (list_items qa)) of
            Inl e \<Rightarrow> Inl e
          | Inr s \<Rightarrow> jsonify enc (PyDict [(ascii ''summary'', PyStr s)]) 200)
         (\<lambda>e. jsonify enc
                (error_payload (ascii ''Erro ao gerar resumo: '' @ exn_str e)) 500) =
       Inr (Response 200 p)"
      by (simp add: summarize_unfold)
    from try_200 [OF this] show ?thesis by blast
  qed
qed

lemma ask_200_not_blank:
  assumes "ask gen enc b = (Inr (Response 200 p), calls)"
  shows "\<exists>s. p = PyDict [(ascii ''answer'', PyStr s)] \<and> s \<noteq> [] \<and> (\<exists>c\<in>set s. \<not> is_space c)"
  using ask_200 [OF assms] generate_not_blank by blast

lemma summarize_200_not_blank:
  assumes "summarize gen to_str enc b = (Inr (Response 200 p), calls)"
  shows "\<exists>s. p = PyDict [(ascii ''summary'', PyStr s)] \<and> s \<noteq> [] \<and> (\<exists>c\<in>set s. \<not> is_space c)"
  using summarize_200 [OF assms] summarize_markdown_not_blank by blast

text \<open>
  C9. A string returned by \<open>generate_markdown_answer\<close> or \<open>summarize_markdown\<close> is never
  empty and never made of whitespace only. When the \<open>text\<close> of the upstream response is
  missing, \<open>None\<close>, empty or blank after trimming, the helper returns its fallback message.
  So the string of a 200 response of either route is never empty or blank.
\<close>

theorem helpers_never_return_blank:
  "(fst (generate_markdown_answer gen question) = Inr s \<longrightarrow>
      s \<noteq> [] \<and> (\<exists>c\<in>set s. \<not> is_space c))
   \<and> (fst (summarize_markdown gen to_str qa) = Inr s' \<longrightarrow>
      s' \<noteq> [] \<and> (\<exists>c\<in>set s'. \<not> is_space c))
   \<and> (gen (answer_prompt question) = Inr r \<and>
        (r = NoTextAttr \<or> r = TextIs PyNone \<or> (\<exists>t. r = TextIs (PyStr t) \<and> strip t = [])) \<longrightarrow>
      fst (generate_markdown_answer gen question) = Inr answer_fallback)
   \<and> (summary_lines to_str 1 summary_header qa = Inr linhas \<and>
        gen (str_join [0x0A] linhas) = Inr r' \<and>
        (r' = NoTextAttr \<or> r' = TextIs PyNone \<or> (\<exists>t. r' = TextIs (PyStr t) \<and> strip t = [])) \<longrightarrow>
      fst (summarize_markdown gen to_str qa) = Inr summary_fallback)
   \<and> (ask gen enc b = (Inr (Response 200 p), calls) \<longrightarrow>
      (\<exists>a. p = PyDict [(ascii ''answer'', PyStr a)] \<and> a \<noteq> [] \<and> (\<exists>c\<in>set a. \<not> is_space c)))
   \<and> (summarize gen to_str enc b' = (Inr (Response 200 p'), calls') \<longrightarrow>
      (\<exists>a. p' = PyDict [(ascii ''summary'', PyStr a)] \<and> a \<noteq> [] \<and> (\<exists>c\<in>set a. \<not> is_space c)))"
proof (intro conjI impI)
  assume "fst (generate_markdown_answer gen question) = Inr s"
  then have "s \<noteq> [] \<and> (\<exists>c\<in>set s. \<not> is_space c)" by (rule generate_not_blank)
  then show "s \<noteq> []" and "\<exists>c\<in>set s. \<not> is_space c" by simp_all
next
  assume "fst (summarize_markdown gen to_str qa) = Inr s'"
  then have "s' \<noteq> [] \<and> (\<exists>c\<in>set s'. \<not> is_space c)" by (rule summarize_markdown_not_blank)
  then show "s' \<noteq> []" and "\<exists>c\<in>set s'. \<not> is_space c" by simp_all
next
  assume "gen (answer_prompt question) = Inr r \<and>
        (r = NoTextAttr \<or> r = TextIs PyNone \<or> (\<exists>t. r = TextIs (PyStr t) \<and> strip t = []))"
  then show "fst (generate_markdown_answer gen question) = Inr answer_fallback"
    by (simp add: generate_result response_text_fallback)
next
  assume "summary_lines to_str 1 summary_header qa = Inr linhas \<and>
        gen (str_join [0x0A] linhas) = Inr r' \<and>
        (r' = NoTextAttr \<or> r' = TextIs PyNone \<or> (\<exists>t. r' = TextIs (PyStr t) \<and> strip t = []))"
  then show "fst (summarize_markdown gen to_str qa) = Inr summary_fallback"
    by (simp add: summarize_markdown_result response_text_fallback)
next
  assume "ask gen enc b = (Inr (Response 200 p), calls)"
  then show "\<exists>a. p = PyDict [(ascii ''answer'', PyStr a)] \<and> a \<noteq> [] \<and> (\<exists>c\<in>set a. \<not> is_space c)"
    by (rule ask_200_not_blank)
next
  assume "summarize gen to_str enc b' = (Inr (Response 200 p'), calls')"
  then show "\<exists>a. p' = PyDict [(ascii ''summary'', PyStr a)] \<and> a \<noteq> [] \<and> (\<exists>c\<in>set a. \<not> is_space c)"
    by (rule summarize_200_not_blank)
qed

theorem blank_upstream_text_gives_fallback:
  "fst (generate_markdown_answer blank_model (ascii ''oi'')) = Inr answer_fallback
   \<and> answer_fallback \<noteq> []
   \<and> fst (summarize_markdown blank_model sample_to_str []) = Inr summary_fallback
   \<and> summary_fallback \<noteq> []
   \<and> ask blank_model sample_enc (Json (PyDict [(ascii ''question'', PyStr (ascii ''oi''))])) =
       (Inr (Response 200 (PyDict [(ascii ''answer'', PyStr answer_fallback)])),
        [answer_prompt (ascii ''oi'')])
   \<and> summarize blank_model sample_to_str sample_enc
         (Json (PyDict [(ascii ''qa'', PyList [qa_item (ascii ''x'', ascii ''y'')])])) =
       (Inr (Response 200 (PyDict [(ascii ''summary'', PyStr summary_fallback)])),
        [str_join [0x0A]
           (summary_header @ [ascii ''- Pergunta 1: x'', ascii ''- Resposta 1: y''])])"
proof -
  have blank: "strip (ascii ''  '') = []"
    by (simp add: strip_def lstrip_def rstrip_def is_space_def ascii_def)
  have ne: "ascii ''oi'' \<noteq> []" by (simp add: ascii_def)
  have lines: "summary_lines sample_to_str 1 summary_header [qa_item (ascii ''x'', ascii ''y'')] =
      Inr (summary_header @ [ascii ''- Pergunta 1: x'', ascii ''- Resposta 1: y''])"
    using summary_lines_qa_items [of sample_to_str 1 summary_header "[(ascii ''x'', ascii ''y'')]"]
    by (simp add: pergunta_line_def resposta_line_def str_of_nat.simps ascii_def)
  have a: "ask blank_model sample_enc
             (Json (PyDict [(ascii ''question'', PyStr (ascii ''oi''))])) =
       (Inr (Response 200 (PyDict [(ascii ''answer'', PyStr answer_fallback)])),
        [answer_prompt (ascii ''oi'')])"
    using ne
    by (simp add: ask_valid_question strip_oi generate_markdown_answer_def Let_def
          blank_model_def response_text_fallback blank try_except_def jsonify_def
          encodable_keys encodable_fallbacks)
  have sm: "summarize_markdown blank_model sample_to_str [qa_item (ascii ''x'', ascii ''y'')] =
       (Inr summary_fallback,
        [str_join [0x0A]
           (summary_header @ [ascii ''- Pergunta 1: x'', ascii ''- Resposta 1: y''])])"
    unfolding summarize_markdown_def lines
    by (simp add: Let_def blank_model_def response_text_fallback blank)
  have b: "summarize blank_model sample_to_str sample_enc
         (Json (PyDict [(ascii ''qa'', PyList [qa_item (ascii ''x'', ascii ''y'')])])) =
       (Inr (Response 200 (PyDict [(ascii ''summary'', PyStr summary_fallback)])),
        [str_join [0x0A]
           (summary_header @ [ascii ''- Pergunta 1: x'', ascii ''- Resposta 1: y''])])"
    by (simp add: summarize_valid_qa sm try_except_def jsonify_def encodable_keys
          encodable_fallbacks)
  note t = helpers_never_return_blank
    [where gen = blank_model and question = "ascii ''oi''" and s = answer_fallback
       and r = "TextIs (PyStr (ascii ''  ''))" and to_str = sample_to_str and qa = "[]"
       and s' = summary_fallback and linhas = summary_header
       and r' = "TextIs (PyStr (ascii ''  ''))" and enc = sample_enc
       and b = "Json (PyDict [(ascii ''question'', PyStr (ascii ''oi''))])"
       and p = "PyDict [(ascii ''answer'', PyStr answer_fallback)]"
       and calls = "[answer_prompt (ascii ''oi'')]"
       and b' = "Json (PyDict [(ascii ''qa'', PyList [qa_item (ascii ''x'', ascii ''y'')])])"
       and p' = "PyDict [(ascii ''summary'', PyStr summary_fallback)]"
       and calls' = "[str_join [0x0A]
           (summary_header @ [ascii ''- Pergunta 1: x'', ascii ''- Resposta 1: y''])]"]
  from t blank a b show ?thesis
    by (simp add: blank_model_def)
qed

end
